theory Spec2Isabelle
  imports Complex_Main "HOL-Library.AList" "HOL-Library.Sublist"
begin

section \<open>JavaScript values at the boundary\<close>

text \<open>
  The handlers and the content codec work on values produced by \<^verbatim>\<open>JSON.parse\<close> and
  \<^verbatim>\<open>request.json()\<close>. Such a value is null, a boolean, a number, a string, an array or
  an object. Strings are sequences of code units; the numbers of JSON are finite, and the
  code only ever asks of a number whether it is zero, so a rational stands for it.
  An object is the list of its own properties in insertion order; a property read takes
  the first entry of that name. The JavaScript value \<^verbatim>\<open>undefined\<close> (a property that is
  not there) is \<open>None\<close> of \<open>json option\<close>.
\<close>

datatype json =
    JNull
  | JBool bool
  | JNum rat
  | JStr string
  | JArr "json list"
  | JObj "(string \<times> json) list"

datatype js_error = SyntaxError | TypeError

text \<open>The operator \<^verbatim>\<open>typeof\<close>.\<close>

fun typeof :: "json option \<Rightarrow> string" where
  "typeof None = ''undefined''"
| "typeof (Some JNull) = ''object''"
| "typeof (Some (JBool b)) = ''boolean''"
| "typeof (Some (JNum n)) = ''number''"
| "typeof (Some (JStr s)) = ''string''"
| "typeof (Some (JArr xs)) = ''object''"
| "typeof (Some (JObj kvs)) = ''object''"

text \<open>Coercion to a boolean, as done by \<^verbatim>\<open>Boolean(v)\<close>, \<^verbatim>\<open>!v\<close> and \<^verbatim>\<open>if (v)\<close>.\<close>

fun truthy :: "json option \<Rightarrow> bool" where
  "truthy None = False"
| "truthy (Some JNull) = False"
| "truthy (Some (JBool b)) = b"
| "truthy (Some (JNum n)) = (n \<noteq> 0)"
| "truthy (Some (JStr s)) = (s \<noteq> [])"
| "truthy (Some (JArr xs)) = True"
| "truthy (Some (JObj kvs)) = True"

text \<open>
  Reading a property \<open>v.k\<close> of a value that is not null, for the property names this
  program reads (title, content, profile_id, body, published, media, id, kind, url):
  none of them is inherited from a prototype, so only an object can have one.
\<close>

fun field :: "json \<Rightarrow> string \<Rightarrow> json option" where
  "field (JObj kvs) k = map_of kvs k"
| "field v k = None"

text \<open>Reading a property of any value: on null the read raises a TypeError.\<close>

definition get_prop :: "json \<Rightarrow> string \<Rightarrow> js_error + json option" where
  "get_prop v k = (if v = JNull then Inl TypeError else Inr (field v k))"

text \<open>
  \<^verbatim>\<open>String.prototype.trim\<close> removes white space and line terminators from both ends.
  Among the code units a \<open>char\<close> holds these are TAB, LF, VT, FF, CR, SPACE and NBSP.
\<close>

definition is_space :: "char \<Rightarrow> bool" where
  "is_space c \<longleftrightarrow> c \<in> set [CHR 0x09, CHR 0x0A, CHR 0x0B, CHR 0x0C, CHR 0x0D, CHR 0x20, CHR 0xA0]"

definition trim :: "string \<Rightarrow> string" where
  "trim s = rev (dropWhile is_space (rev (dropWhile is_space s)))"

section \<open>The UUID validator\<close>

text \<open>
  \<^verbatim>\<open>/^[0-9a-f]{8}-[0-9a-f]{4}-[1-5][0-9a-f]{3}-[89ab][0-9a-f]{3}-[0-9a-f]{12}$/i.test(value)\<close>

  The pattern is a sequence of character classes, each repeated a fixed number of times,
  between the anchors \<^verbatim>\<open>^\<close> and \<^verbatim>\<open>$\<close>. Under the flag \<^verbatim>\<open>i\<close> a character matches a class
  when its upper-case form is the upper-case form of a member of the class. The members
  of the classes here are ASCII characters, and the upper-case form of a character that
  is not ASCII is never an ASCII character, so \<open>upper\<close> maps the letters a to z and
  leaves every other character as it is. The ranges \<^verbatim>\<open>0-9\<close>, \<^verbatim>\<open>a-f\<close> and \<^verbatim>\<open>1-5\<close> are
  written out.
\<close>

definition upper :: "char \<Rightarrow> char" where
  "upper c =
     (case map_of (zip ''abcdefghijklmnopqrstuvwxyz'' ''ABCDEFGHIJKLMNOPQRSTUVWXYZ'') c of
        Some u \<Rightarrow> u
      | None \<Rightarrow> c)"

text \<open>A class is the list of its members; \<open>in_class_i\<close> is membership under the flag \<^verbatim>\<open>i\<close>.\<close>

definition in_class_i :: "char list \<Rightarrow> char \<Rightarrow> bool" where
  "in_class_i members c \<longleftrightarrow> upper c \<in> set (map upper members)"

definition cls_hex :: "char list" where
  "cls_hex = ''0123456789abcdef''"

definition cls_version :: "char list" where
  "cls_version = ''12345''"

definition cls_variant :: "char list" where
  "cls_variant = ''89ab''"

definition cls_dash :: "char list" where
  "cls_dash = ''-''"

text \<open>Matching \<open>n\<close> characters of a class at the head of the input; the rest is returned.\<close>

fun match_rep :: "char list \<Rightarrow> nat \<Rightarrow> string \<Rightarrow> string option" where
  "match_rep cls 0 s = Some s"
| "match_rep cls (Suc n) [] = None"
| "match_rep cls (Suc n) (c # s) = (if in_class_i cls c then match_rep cls n s else None)"

text \<open>Matching a sequence of repeated classes, then the end of the input.\<close>

fun match_seq :: "(char list \<times> nat) list \<Rightarrow> string \<Rightarrow> bool" where
  "match_seq [] s = (s = [])"
| "match_seq ((cls, n) # ps) s =
     (case match_rep cls n s of None \<Rightarrow> False | Some rest \<Rightarrow> match_seq ps rest)"

definition uuid_pattern :: "(char list \<times> nat) list" where
  "uuid_pattern =
     [(cls_hex, 8), (cls_dash, 1), (cls_hex, 4), (cls_dash, 1),
      (cls_version, 1), (cls_hex, 3), (cls_dash, 1),
      (cls_variant, 1), (cls_hex, 3), (cls_dash, 1), (cls_hex, 12)]"

definition isUuid :: "string \<Rightarrow> bool" where
  "isUuid v = match_seq uuid_pattern v"

text \<open>
  The specification's wording of the same set of texts: 36 characters in five groups of
  8, 4, 4, 4 and 12 hexadecimal digits of either case, joined by hyphens, where the first
  digit of the third group (the version nibble) is one of 1 to 5 and the first digit of
  the fourth group (the variant nibble) is one of 8, 9, a, b in either case.
\<close>

definition hex_digit :: "char \<Rightarrow> bool" where
  "hex_digit c \<longleftrightarrow> c \<in> set ''0123456789abcdefABCDEF''"

definition canonical_uuid :: "string \<Rightarrow> bool" where
  "canonical_uuid s \<longleftrightarrow>
     length s = 36 \<and>
     (let g1 = take 8 s; g2 = take 4 (drop 9 s); g3 = take 4 (drop 14 s);
          g4 = take 4 (drop 19 s); g5 = take 12 (drop 24 s)
      in s = g1 @ ''-'' @ g2 @ ''-'' @ g3 @ ''-'' @ g4 @ ''-'' @ g5 \<and>
         list_all hex_digit (g1 @ g2 @ g3 @ g4 @ g5) \<and>
         hd g3 \<in> set ''12345'' \<and>
         hd g4 \<in> set ''89abAB'')"

section \<open>The post content codec\<close>

text \<open>
  \<^verbatim>\<open>type MediaItem = { id: string; kind: 'image' | 'video'; url: string }\<close> and
  \<^verbatim>\<open>type ParsedContent = { body: string; published: boolean; media: MediaItem[] }\<close>.
  Types are erased when the program runs: a media item is the object that was parsed, with
  whatever other properties it has, so the entries of \<open>media\<close> are values, and the type
  \<^verbatim>\<open>MediaItem\<close> is the predicate that the type guard of the decoder computes.
\<close>

record ParsedContent =
  body :: string
  published :: bool
  media :: "json list"

text \<open>
  The type guard of \<^verbatim>\<open>parsePostContent\<close>:
  \<^verbatim>\<open>item && typeof item === 'object' && typeof item.id === 'string' &&
  (item.kind === 'image' || item.kind === 'video') && typeof item.url === 'string'\<close>.
\<close>

definition is_MediaItem :: "json \<Rightarrow> bool" where
  "is_MediaItem item \<longleftrightarrow>
     truthy (Some item) \<and>
     typeof (Some item) = ''object'' \<and>
     typeof (field item ''id'') = ''string'' \<and>
     (field item ''kind'' = Some (JStr ''image'') \<or> field item ''kind'' = Some (JStr ''video'')) \<and>
     typeof (field item ''url'') = ''string''"

text \<open>
  \<^verbatim>\<open>{ ...item, url: item.url.trim() }\<close>: a copy of the item's properties in their order,
  with \<open>url\<close> set to the trimmed text. Where \<open>item.url\<close> is not a string the call of
  \<^verbatim>\<open>trim\<close> raises a TypeError.
\<close>

fun with_trimmed_url :: "json \<Rightarrow> js_error + json" where
  "with_trimmed_url (JObj kvs) =
     (case map_of kvs ''url'' of
        Some (JStr u) \<Rightarrow> Inr (JObj (AList.update ''url'' (JStr (trim u)) kvs))
      | _ \<Rightarrow> Inl TypeError)"
| "with_trimmed_url v = Inl TypeError"

text \<open>\<^verbatim>\<open>Array.prototype.map\<close> with a callback that may raise: the first error ends it.\<close>

fun map_e :: "('a \<Rightarrow> 'e + 'b) \<Rightarrow> 'a list \<Rightarrow> 'e + 'b list" where
  "map_e f [] = Inr []"
| "map_e f (x # xs) =
     (case f x of
        Inl e \<Rightarrow> Inl e
      | Inr y \<Rightarrow> (case map_e f xs of Inl e \<Rightarrow> Inl e | Inr ys \<Rightarrow> Inr (y # ys)))"

text \<open>\<^verbatim>\<open>Array.prototype.filter\<close> with a callback that may raise.\<close>

fun filter_e :: "('a \<Rightarrow> 'e + bool) \<Rightarrow> 'a list \<Rightarrow> 'e + 'a list" where
  "filter_e f [] = Inr []"
| "filter_e f (x # xs) =
     (case f x of
        Inl e \<Rightarrow> Inl e
      | Inr b \<Rightarrow>
          (case filter_e f xs of
             Inl e \<Rightarrow> Inl e
           | Inr ys \<Rightarrow> Inr (if b then x # ys else ys)))"

text \<open>
  The body of the \<^verbatim>\<open>try\<close> block of \<^verbatim>\<open>parsePostContent\<close>. \<^verbatim>\<open>JSON.parse\<close> is the
  platform's; it is a parameter, \<open>None\<close> where it raises a SyntaxError.
\<close>

definition parse_attempt :: "(string \<Rightarrow> json option) \<Rightarrow> string \<Rightarrow> js_error + ParsedContent" where
  "parse_attempt JSON_parse raw =
     (case JSON_parse raw of
        None \<Rightarrow> Inl SyntaxError
      | Some parsed \<Rightarrow>
          (case get_prop parsed ''media'' of
             Inl e \<Rightarrow> Inl e
           | Inr m \<Rightarrow>
               (case (case m of
                        Some (JArr items) \<Rightarrow> map_e with_trimmed_url (filter is_MediaItem items)
                      | _ \<Rightarrow> Inr [])
                of
                  Inl e \<Rightarrow> Inl e
                | Inr items' \<Rightarrow>
                    Inr \<lparr>body = (case field parsed ''body'' of Some (JStr b) \<Rightarrow> b | _ \<Rightarrow> ''''),
                         published = truthy (field parsed ''published''),
                         media = items'\<rparr>)))"

text \<open>\<^verbatim>\<open>parsePostContent(raw: string | null)\<close>; \<open>!raw\<close> holds of null and of the empty text.\<close>

definition parsePostContent :: "(string \<Rightarrow> json option) \<Rightarrow> string option \<Rightarrow> ParsedContent" where
  "parsePostContent JSON_parse raw =
     (case raw of
        None \<Rightarrow> \<lparr>body = '''', published = False, media = []\<rparr>
      | Some r \<Rightarrow>
          if r = [] then \<lparr>body = '''', published = False, media = []\<rparr>
          else (case parse_attempt JSON_parse r of
                  Inr p \<Rightarrow> p
                | Inl e \<Rightarrow> \<lparr>body = r, published = False, media = []\<rparr>))"

text \<open>
  The callback of the filter in \<^verbatim>\<open>serializeContent\<close>, \<^verbatim>\<open>item.url.trim().length > 0\<close>.
  On a value that is not a \<^verbatim>\<open>MediaItem\<close> (no \<open>url\<close>, or one that is not a string) it
  raises a TypeError.
\<close>

fun url_nonempty :: "json \<Rightarrow> js_error + bool" where
  "url_nonempty (JObj kvs) =
     (case map_of kvs ''url'' of
        Some (JStr u) \<Rightarrow> Inr (length (trim u) > 0)
      | _ \<Rightarrow> Inl TypeError)"
| "url_nonempty v = Inl TypeError"

text \<open>
  The object that \<^verbatim>\<open>serializeContent\<close> builds, and its serialization by the platform's
  \<^verbatim>\<open>JSON.stringify\<close>, a parameter.
\<close>

definition content_object :: "ParsedContent \<Rightarrow> js_error + json" where
  "content_object d =
     (case filter_e url_nonempty (media d) of
        Inl e \<Rightarrow> Inl e
      | Inr kept \<Rightarrow>
          Inr (JObj [(''body'', JStr (body d)),
                     (''published'', JBool (published d)),
                     (''media'', JArr kept)]))"

definition serializeContent :: "(json \<Rightarrow> string) \<Rightarrow> ParsedContent \<Rightarrow> js_error + string" where
  "serializeContent JSON_stringify d =
     (case content_object d of Inl e \<Rightarrow> Inl e | Inr obj \<Rightarrow> Inr (JSON_stringify obj))"

section \<open>The payload validators\<close>

text \<open>
  Both validators return \<^verbatim>\<open>{ valid: boolean; data?: ...; error?: string }\<close>. The payload
  they build is the object handed to the backend, so it is kept as a value.
\<close>

record validation =
  valid :: bool
  data :: "json option"
  error :: "string option"

text \<open>The two shapes returned: \<^verbatim>\<open>{ valid: false, error }\<close> and \<^verbatim>\<open>{ valid: true, data }\<close>.\<close>

definition invalid :: "string \<Rightarrow> validation" where
  "invalid msg = \<lparr>valid = False, data = None, error = Some msg\<rparr>"

definition accepted :: "json \<Rightarrow> validation" where
  "accepted d = \<lparr>valid = True, data = Some d, error = None\<rparr>"

text \<open>
  \<^verbatim>\<open>validateCreatePostPayload(payload: unknown)\<close>. A test of the form
  \<^verbatim>\<open>typeof x !== 'string' || ...\<close> is a case distinction on \<open>x\<close>: the right operand is
  only evaluated on a string. The rules are tried in the order of the source.
\<close>

definition validateCreatePostPayload :: "json \<Rightarrow> validation" where
  \<open>validateCreatePostPayload payload =
     (if \<not> truthy (Some payload) \<or> typeof (Some payload) \<noteq> ''object'' then
        invalid ''Request body must be a JSON object.''
      else
        (case field payload ''title'' of
           Some (JStr t) \<Rightarrow>
             if length (trim t) = 0 then
               invalid ''"title" is required and must be a non-empty string.''
             else
               (case field payload ''profile_id'' of
                  Some (JStr p) \<Rightarrow>
                    if \<not> isUuid p then
                      invalid ''"profile_id" is required and must be a valid UUID.''
                    else
                      (case field payload ''content'' of
                         None \<Rightarrow>
                           accepted (JObj [(''title'', JStr (trim t)), (''content'', JNull),
                                           (''profile_id'', JStr p)])
                       | Some JNull \<Rightarrow>
                           accepted (JObj [(''title'', JStr (trim t)), (''content'', JNull),
                                           (''profile_id'', JStr p)])
                       | Some (JStr c) \<Rightarrow>
                           accepted (JObj [(''title'', JStr (trim t)), (''content'', JStr c),
                                           (''profile_id'', JStr p)])
                       | Some _ \<Rightarrow>
                           invalid ''"content" must be a string or null when provided.'')
                | _ \<Rightarrow> invalid ''"profile_id" is required and must be a valid UUID.'')
         | _ \<Rightarrow> invalid ''"title" is required and must be a non-empty string.''))\<close>

text \<open>
  \<^verbatim>\<open>validateUpdatePayload(payload: unknown)\<close>. The record \<open>updates\<close> starts empty and
  receives a property for each field of the body that is there.
\<close>

definition validateUpdatePayload :: "json \<Rightarrow> validation" where
  \<open>validateUpdatePayload payload =
     (if \<not> truthy (Some payload) \<or> typeof (Some payload) \<noteq> ''object'' then
        invalid ''Request body must be a JSON object.''
      else if field payload ''title'' = None \<and> field payload ''content'' = None then
        invalid ''At least one field is required: "title" or "content".''
      else
        (case (case field payload ''title'' of
                 None \<Rightarrow> Inr []
               | Some (JStr t) \<Rightarrow>
                   if length (trim t) = 0 then
                     Inl ''"title" must be a non-empty string when provided.''
                   else Inr (AList.update ''title'' (JStr (trim t)) [])
               | Some _ \<Rightarrow> Inl ''"title" must be a non-empty string when provided.'')
         of
           Inl msg \<Rightarrow> invalid msg
         | Inr updates \<Rightarrow>
             (case field payload ''content'' of
                None \<Rightarrow> accepted (JObj updates)
              | Some JNull \<Rightarrow> accepted (JObj (AList.update ''content'' JNull updates))
              | Some (JStr c) \<Rightarrow> accepted (JObj (AList.update ''content'' (JStr c) updates))
              | Some _ \<Rightarrow> invalid ''"content" must be a string or null when provided.'')))\<close>

section \<open>The resource handlers\<close>

text \<open>
  The backend is reached through one client; each call returns \<^verbatim>\<open>{ data, error }\<close>, where
  \<open>error\<close> is null or an object with a message. A handler's run is its response together
  with the effects it performed, in order: reading the request body and calling the
  backend. The backend and the request are parameters: \<open>db\<close> answers a call, and the body
  of the request is \<open>None\<close> where \<^verbatim>\<open>request.json()\<close> raises. The test
  \<^verbatim>\<open>!validation.valid || !validation.data\<close> leaves the payload in hand only when it is there.
\<close>

datatype db_call =
    SelectAll
  | Insert json
  | SelectById string
  | UpdateById string json
  | DeleteById string

record db_result =
  db_data :: json
  db_error :: "string option"

datatype effect = ReadBody | Db db_call

datatype resp_body = ErrorBody "string option" | DataBody json | NoBody

record response =
  status :: nat
  payload :: resp_body

type_synonym backend = "db_call \<Rightarrow> db_result"

text \<open>\<^verbatim>\<open>invalidIdResponse()\<close>\<close>

definition invalidIdResponse :: response where
  "invalidIdResponse = \<lparr>status = 400, payload = ErrorBody (Some ''Invalid post id. Expected UUID.'')\<rparr>"

text \<open>\<^verbatim>\<open>GET /api/posts\<close>\<close>

definition posts_GET :: "backend \<Rightarrow> response \<times> effect list" where
  "posts_GET db =
     (let r = db SelectAll in
      if db_error r \<noteq> None then
        (\<lparr>status = 500, payload = ErrorBody (db_error r)\<rparr>, [Db SelectAll])
      else
        (\<lparr>status = 200, payload = DataBody (db_data r)\<rparr>, [Db SelectAll]))"

text \<open>\<^verbatim>\<open>POST /api/posts\<close>\<close>

definition posts_POST :: "backend \<Rightarrow> json option \<Rightarrow> response \<times> effect list" where
  "posts_POST db request_json =
     (case request_json of
        None \<Rightarrow> (\<lparr>status = 400, payload = ErrorBody (Some ''Invalid JSON body.'')\<rparr>, [ReadBody])
      | Some p \<Rightarrow>
          (let validation = validateCreatePostPayload p in
           case (if \<not> valid validation \<or> \<not> truthy (data validation) then None
                else data validation) of
             None \<Rightarrow> (\<lparr>status = 400, payload = ErrorBody (error validation)\<rparr>, [ReadBody])
           | Some d \<Rightarrow>
               (let r = db (Insert d) in
                if db_error r \<noteq> None then
                  (\<lparr>status = 500, payload = ErrorBody (db_error r)\<rparr>, [ReadBody, Db (Insert d)])
                else
                  (\<lparr>status = 201, payload = DataBody (db_data r)\<rparr>, [ReadBody, Db (Insert d)]))))"

text \<open>\<^verbatim>\<open>GET /api/posts/[id]\<close>\<close>

definition post_GET :: "backend \<Rightarrow> string \<Rightarrow> response \<times> effect list" where
  "post_GET db post_id =
     (if \<not> isUuid post_id then (invalidIdResponse, [])
      else
        (let r = db (SelectById post_id) in
         if db_error r \<noteq> None then
           (\<lparr>status = 500, payload = ErrorBody (db_error r)\<rparr>, [Db (SelectById post_id)])
         else if \<not> truthy (Some (db_data r)) then
           (\<lparr>status = 404, payload = ErrorBody (Some ''Post not found.'')\<rparr>, [Db (SelectById post_id)])
         else
           (\<lparr>status = 200, payload = DataBody (db_data r)\<rparr>, [Db (SelectById post_id)])))"

text \<open>\<^verbatim>\<open>PUT /api/posts/[id]\<close>\<close>

definition post_PUT :: "backend \<Rightarrow> json option \<Rightarrow> string \<Rightarrow> response \<times> effect list" where
  "post_PUT db request_json post_id =
     (if \<not> isUuid post_id then (invalidIdResponse, [])
      else
        (case request_json of
           None \<Rightarrow> (\<lparr>status = 400, payload = ErrorBody (Some ''Invalid JSON body.'')\<rparr>, [ReadBody])
         | Some p \<Rightarrow>
             (let validation = validateUpdatePayload p in
              case (if \<not> valid validation \<or> \<not> truthy (data validation) then None
                else data validation) of
                None \<Rightarrow> (\<lparr>status = 400, payload = ErrorBody (error validation)\<rparr>, [ReadBody])
              | Some d \<Rightarrow>
                  (let r = db (UpdateById post_id d) in
                   if db_error r \<noteq> None then
                     (\<lparr>status = 500, payload = ErrorBody (db_error r)\<rparr>,
                      [ReadBody, Db (UpdateById post_id d)])
                   else if \<not> truthy (Some (db_data r)) then
                     (\<lparr>status = 404, payload = ErrorBody (Some ''Post not found.'')\<rparr>,
                      [ReadBody, Db (UpdateById post_id d)])
                   else
                     (\<lparr>status = 200, payload = DataBody (db_data r)\<rparr>,
                      [ReadBody, Db (UpdateById post_id d)])))))"

text \<open>\<^verbatim>\<open>DELETE /api/posts/[id]\<close>\<close>

definition post_DELETE :: "backend \<Rightarrow> string \<Rightarrow> response \<times> effect list" where
  "post_DELETE db post_id =
     (if \<not> isUuid post_id then (invalidIdResponse, [])
      else
        (let r = db (DeleteById post_id) in
         if db_error r \<noteq> None then
           (\<lparr>status = 500, payload = ErrorBody (db_error r)\<rparr>, [Db (DeleteById post_id)])
         else if \<not> truthy (Some (db_data r)) then
           (\<lparr>status = 404, payload = ErrorBody (Some ''Post not found.'')\<rparr>, [Db (DeleteById post_id)])
         else
           (\<lparr>status = 204, payload = NoBody\<rparr>, [Db (DeleteById post_id)])))"

section \<open>The codec in the words of the specification\<close>

text \<open>
  A media entry is kept by the decoder when it is an object with a text \<open>id\<close>, a \<open>kind\<close>
  that is exactly \<open>image\<close> or \<open>video\<close>, and a text \<open>url\<close>.
\<close>

definition is_text :: "json option \<Rightarrow> bool" where
  "is_text v = (case v of Some (JStr s) \<Rightarrow> True | _ \<Rightarrow> False)"

fun media_entry_ok :: "json \<Rightarrow> bool" where
  "media_entry_ok (JObj kvs) \<longleftrightarrow>
     is_text (map_of kvs ''id'') \<and>
     (map_of kvs ''kind'' = Some (JStr ''image'') \<or> map_of kvs ''kind'' = Some (JStr ''video'')) \<and>
     is_text (map_of kvs ''url'')"
| "media_entry_ok v \<longleftrightarrow> False"

text \<open>The \<open>url\<close> of an entry, and the entry with another \<open>url\<close> and all else as it was.\<close>

fun url_text :: "json \<Rightarrow> string" where
  "url_text (JObj kvs) = (case map_of kvs ''url'' of Some (JStr u) \<Rightarrow> u | _ \<Rightarrow> '''')"
| "url_text v = ''''"

fun entry_with_url :: "string \<Rightarrow> json \<Rightarrow> json" where
  "entry_with_url u (JObj kvs) = JObj (AList.update ''url'' (JStr u) kvs)"
| "entry_with_url u v = v"

definition url_trimmed :: "json \<Rightarrow> json" where
  "url_trimmed item = entry_with_url (trim (url_text item)) item"

text \<open>An entry is empty when its trimmed \<open>url\<close> is; the encoder drops the empty entries.\<close>

definition empty_media :: "json \<Rightarrow> bool" where
  "empty_media item \<longleftrightarrow> trim (url_text item) = ''''"

definition without_empty_media :: "ParsedContent \<Rightarrow> ParsedContent" where
  "without_empty_media x = x\<lparr>media := filter (\<lambda>item. \<not> empty_media item) (media x)\<rparr>"

text \<open>The three fields of the serialized record.\<close>

definition serialized_fields :: "ParsedContent \<Rightarrow> json" where
  "serialized_fields x =
     JObj [(''body'', JStr (body x)),
           (''published'', JBool (published x)),
           (''media'', JArr (media (without_empty_media x)))]"

section \<open>Example data\<close>

text \<open>
  A record with one entry whose \<open>url\<close> has blanks around it and one whose \<open>url\<close> is
  blank, the text \<^verbatim>\<open>JSON.stringify\<close> gives for it, and \<^verbatim>\<open>JSON.parse\<close> and
  \<^verbatim>\<open>JSON.stringify\<close> tabulated at the texts and values of the examples (elsewhere the
  tables are not meant).
\<close>

definition example_item_a :: json where
  "example_item_a = JObj [(''id'', JStr ''a''), (''kind'', JStr ''image''), (''url'', JStr '' u '')]"

definition example_item_b :: json where
  "example_item_b = JObj [(''id'', JStr ''b''), (''kind'', JStr ''video''), (''url'', JStr ''  '')]"

definition example_content :: ParsedContent where
  "example_content = \<lparr>body = ''hi'', published = True, media = [example_item_a, example_item_b]\<rparr>"

definition example_text :: string where
  \<open>example_text =
     ''{"body":"hi","published":true,"media":[{"id":"a","kind":"image","url":" u "}]}''\<close>

definition example_stringify :: "json \<Rightarrow> string" where
  "example_stringify v =
     (if v = JObj [(''body'', JStr ''hi''), (''published'', JBool True),
                   (''media'', JArr [example_item_a])]
      then example_text else ''null'')"

definition example_parse :: "string \<Rightarrow> json option" where
  \<open>example_parse s =
     (if s = example_text then
        Some (JObj [(''body'', JStr ''hi''), (''published'', JBool True),
                    (''media'', JArr [example_item_a])])
      else if s = ''42'' then Some (JNum 42)
      else if s = ''true'' then Some (JBool True)
      else if s = ''"hello"'' then Some (JStr ''hello'')
      else if s = ''null'' then Some JNull
      else if s = ''[1]'' then Some (JArr [JNum 1])
      else if s = ''{"published":0,"media":[7]}'' then
        Some (JObj [(''published'', JNum 0), (''media'', JArr [JNum 7])])
      else None)\<close>

text \<open>A valid identifier, a backend that answers every call with a row, and one that fails.\<close>

definition example_uuid :: string where
  "example_uuid = ''123e4567-e89b-12d3-a456-426614174000''"

definition example_backend_up :: backend where
  "example_backend_up call = \<lparr>db_data = JObj [(''id'', JStr example_uuid)], db_error = None\<rparr>"

definition example_backend_down :: backend where
  "example_backend_down call = \<lparr>db_data = JNull, db_error = Some ''connection refused''\<rparr>"

section \<open>Properties of the UUID validator\<close>

lemma in_class_hex: "in_class_i cls_hex c \<longleftrightarrow> hex_digit c"
  unfolding in_class_i_def cls_hex_def hex_digit_def
  by (auto simp: upper_def)

lemma in_class_dash: "in_class_i cls_dash c \<longleftrightarrow> c = CHR ''-''"
  unfolding in_class_i_def cls_dash_def
  by (auto simp: upper_def)

lemma in_class_version: "in_class_i cls_version c \<longleftrightarrow> c \<in> set ''12345''"
  unfolding in_class_i_def cls_version_def
  by (auto simp: upper_def)

lemma in_class_variant: "in_class_i cls_variant c \<longleftrightarrow> c \<in> set ''89abAB''"
  unfolding in_class_i_def cls_variant_def
  by (auto simp: upper_def)

lemma match_rep_length: "match_rep cls n s = Some r \<Longrightarrow> length s = n + length r"
  by (induction cls n s rule: match_rep.induct) (auto split: if_splits)

lemma match_seq_length: "match_seq ps s \<Longrightarrow> length s = sum_list (map snd ps)"
proof (induction ps s rule: match_seq.induct)
  case (1 s)
  then show ?case by simp
next
  case (2 cls n ps s)
  then show ?case
    by (auto split: option.splits dest: match_rep_length)
qed

lemma isUuid_length: "isUuid s \<Longrightarrow> length s = 36"
  using match_seq_length[of uuid_pattern s] by (simp add: isUuid_def uuid_pattern_def)

lemma length_36_cases:
  assumes "length s = 36"
  obtains c0 c1 c2 c3 c4 c5 c6 c7 c8 c9 c10 c11 c12 c13 c14 c15 c16 c17
          c18 c19 c20 c21 c22 c23 c24 c25 c26 c27 c28 c29 c30 c31 c32 c33 c34 c35
  where "s = [c0, c1, c2, c3, c4, c5, c6, c7, c8, c9, c10, c11, c12, c13, c14, c15, c16, c17,
          c18, c19, c20, c21, c22, c23, c24, c25, c26, c27, c28, c29, c30, c31, c32, c33, c34, c35]"
  using assms by (auto simp: eval_nat_numeral length_Suc_conv)

lemma isUuid_explicit:
  "isUuid [c0, c1, c2, c3, c4, c5, c6, c7, c8, c9, c10, c11, c12, c13, c14, c15, c16, c17,
          c18, c19, c20, c21, c22, c23, c24, c25, c26, c27, c28, c29, c30, c31, c32, c33, c34, c35]
   \<longleftrightarrow> list_all hex_digit [c0, c1, c2, c3, c4, c5, c6, c7] \<and> c8 = CHR ''-'' \<and>
       list_all hex_digit [c9, c10, c11, c12] \<and> c13 = CHR ''-'' \<and>
       c14 \<in> set ''12345'' \<and> list_all hex_digit [c15, c16, c17] \<and> c18 = CHR ''-'' \<and>
       c19 \<in> set ''89abAB'' \<and> list_all hex_digit [c20, c21, c22] \<and> c23 = CHR ''-'' \<and>
       list_all hex_digit [c24, c25, c26, c27, c28, c29, c30, c31, c32, c33, c34, c35]"
  unfolding isUuid_def uuid_pattern_def
  by (simp add: eval_nat_numeral in_class_hex in_class_dash in_class_version in_class_variant
        del: list.set)

lemma canonical_uuid_explicit:
  "canonical_uuid [c0, c1, c2, c3, c4, c5, c6, c7, c8, c9, c10, c11, c12, c13, c14, c15, c16, c17,
          c18, c19, c20, c21, c22, c23, c24, c25, c26, c27, c28, c29, c30, c31, c32, c33, c34, c35]
   \<longleftrightarrow> list_all hex_digit [c0, c1, c2, c3, c4, c5, c6, c7] \<and> c8 = CHR ''-'' \<and>
       list_all hex_digit [c9, c10, c11, c12] \<and> c13 = CHR ''-'' \<and>
       c14 \<in> set ''12345'' \<and> list_all hex_digit [c15, c16, c17] \<and> c18 = CHR ''-'' \<and>
       c19 \<in> set ''89abAB'' \<and> list_all hex_digit [c20, c21, c22] \<and> c23 = CHR ''-'' \<and>
       list_all hex_digit [c24, c25, c26, c27, c28, c29, c30, c31, c32, c33, c34, c35]"
proof -
  have v: "c14 \<in> set ''12345'' \<Longrightarrow> hex_digit c14"
    by (auto simp: hex_digit_def)
  have w: "c19 \<in> set ''89abAB'' \<Longrightarrow> hex_digit c19"
    by (auto simp: hex_digit_def)
  show ?thesis
    unfolding canonical_uuid_def Let_def
    apply (simp add: eval_nat_numeral del: list.set)
    apply (rule iffI)
     apply (elim conjE, intro conjI; assumption)
    apply (elim conjE, intro conjI; (assumption | erule v | erule w))
    done
qed

lemma example_uuid_valid: "isUuid example_uuid"
  by (simp add: example_uuid_def isUuid_explicit hex_digit_def)

text \<open>
  Claim C8. For every text \<open>s\<close>, the UUID validator returns true if and only if \<open>s\<close> is
  of the canonical 36-character 8-4-4-4-12 hyphenated hexadecimal form with version nibble
  in 1 to 5 and variant nibble in 8, 9, a, b, in either case. The validator is a predicate:
  it returns a boolean and no normalized text.
\<close>

theorem isUuid_iff_canonical: "isUuid s \<longleftrightarrow> canonical_uuid s"
proof (cases "length s = 36")
  case True
  then show ?thesis
    by (elim length_36_cases) (simp only: isUuid_explicit canonical_uuid_explicit)
next
  case False
  then show ?thesis
    using isUuid_length[of s] by (auto simp: canonical_uuid_def)
qed

theorem isUuid_iff_canonical_witness:
  "isUuid ''123E4567-e89b-12d3-A456-426614174000'' \<and>
   canonical_uuid ''123E4567-e89b-12d3-A456-426614174000'' \<and>
   \<not> isUuid ''123e4567-e89b-62d3-a456-426614174000'' \<and>
   \<not> canonical_uuid ''123e4567-e89b-62d3-a456-426614174000''"
  using isUuid_iff_canonical [of "''123E4567-e89b-12d3-A456-426614174000''"]
        isUuid_iff_canonical [of "''123e4567-e89b-62d3-a456-426614174000''"]
  by (simp add: canonical_uuid_def hex_digit_def)

section \<open>Properties of the content codec\<close>

lemma typeof_string_iff: "typeof v = ''string'' \<longleftrightarrow> is_text v"
  by (cases v rule: typeof.cases) (simp_all add: is_text_def)

lemma is_MediaItem_iff: "is_MediaItem item \<longleftrightarrow> media_entry_ok item"
  by (cases item) (simp_all add: is_MediaItem_def typeof_string_iff)

lemma with_trimmed_url_ok:
  "media_entry_ok item \<Longrightarrow> with_trimmed_url item = Inr (url_trimmed item)"
  by (cases item) (auto simp: url_trimmed_def is_text_def split: option.splits json.splits)

lemma map_e_trimmed:
  "list_all media_entry_ok xs \<Longrightarrow> map_e with_trimmed_url xs = Inr (map url_trimmed xs)"
  by (induction xs) (simp_all add: with_trimmed_url_ok)

lemma map_e_filter_trimmed:
  "map_e with_trimmed_url (filter is_MediaItem xs) = Inr (map url_trimmed (filter media_entry_ok xs))"
proof -
  have "is_MediaItem = media_entry_ok"
    by (rule ext) (rule is_MediaItem_iff)
  then have "filter is_MediaItem xs = filter media_entry_ok xs"
    by simp
  moreover have "list_all media_entry_ok (filter media_entry_ok xs)"
    by (simp add: list_all_iff)
  ultimately show ?thesis
    by (simp add: map_e_trimmed)
qed

lemma url_nonempty_ok:
  "media_entry_ok item \<Longrightarrow> url_nonempty item = Inr (\<not> empty_media item)"
  by (cases item) (auto simp: empty_media_def is_text_def split: option.splits json.splits)

lemma filter_e_nonempty:
  "list_all media_entry_ok xs \<Longrightarrow>
   filter_e url_nonempty xs = Inr (filter (\<lambda>item. \<not> empty_media item) xs)"
  by (induction xs) (simp_all add: url_nonempty_ok)

lemma parse_attempt_object:
  "P raw = Some (JObj kvs) \<Longrightarrow>
   parse_attempt P raw =
     Inr \<lparr>body = (case map_of kvs ''body'' of Some (JStr b) \<Rightarrow> b | _ \<Rightarrow> ''''),
          published = truthy (map_of kvs ''published''),
          media = (case map_of kvs ''media'' of
                     Some (JArr items) \<Rightarrow> map url_trimmed (filter media_entry_ok items)
                   | _ \<Rightarrow> [])\<rparr>"
  by (simp add: parse_attempt_def get_prop_def map_e_filter_trimmed
        split: option.splits json.splits)

lemma parse_attempt_fails_iff:
  "(\<exists>e. parse_attempt P raw = Inl e) \<longleftrightarrow> P raw = None \<or> P raw = Some JNull"
  by (auto simp: parse_attempt_def get_prop_def map_e_filter_trimmed
        split: option.splits json.splits)

lemma parse_attempt_primitive:
  "P raw = Some v \<Longrightarrow> v \<noteq> JNull \<Longrightarrow> (\<forall>kvs. v \<noteq> JObj kvs) \<Longrightarrow>
   parse_attempt P raw = Inr \<lparr>body = '''', published = False, media = []\<rparr>"
  by (cases v) (simp_all add: parse_attempt_def get_prop_def)





text \<open>
  Claim C10. For a raw text that parses to a number, a boolean or a string, the decoder
  returns the record with empty body, not published and no media, which is not the
  plain-text fallback: the raw text is lost. The fallback is taken exactly when
  \<^verbatim>\<open>JSON.parse\<close> raises or the parsed value is null (reading its \<open>media\<close> raises).
\<close>

theorem non_object_json_discards_raw:
  "raw \<noteq> '''' \<longrightarrow>
     ((P raw = Some (JNum n) \<or> P raw = Some (JBool b) \<or> P raw = Some (JStr t)) \<longrightarrow>
        parsePostContent P (Some raw) = \<lparr>body = '''', published = False, media = []\<rparr> \<and>
        parsePostContent P (Some raw) \<noteq> \<lparr>body = raw, published = False, media = []\<rparr>) \<and>
     ((\<exists>e. parse_attempt P raw = Inl e) \<longleftrightarrow> (P raw = None \<or> P raw = Some JNull)) \<and>
     (P raw = None \<or> P raw = Some JNull \<longrightarrow>
        parsePostContent P (Some raw) = \<lparr>body = raw, published = False, media = []\<rparr>)"
proof (intro impI conjI)
  assume ne: "raw \<noteq> ''''"
  show "(\<exists>e. parse_attempt P raw = Inl e) \<longleftrightarrow> (P raw = None \<or> P raw = Some JNull)"
    by (rule parse_attempt_fails_iff)
  {
    assume "P raw = Some (JNum n) \<or> P raw = Some (JBool b) \<or> P raw = Some (JStr t)"
    then have "parse_attempt P raw = Inr \<lparr>body = '''', published = False, media = []\<rparr>"
      by (auto simp: parse_attempt_primitive)
    with ne show "parsePostContent P (Some raw) = \<lparr>body = '''', published = False, media = []\<rparr>"
      by (simp add: parsePostContent_def)
    with ne show "parsePostContent P (Some raw) \<noteq> \<lparr>body = raw, published = False, media = []\<rparr>"
      by auto
  }
  {
    assume "P raw = None \<or> P raw = Some JNull"
    then obtain e where "parse_attempt P raw = Inl e"
      using parse_attempt_fails_iff[of P raw] by blast
    with ne show "parsePostContent P (Some raw) = \<lparr>body = raw, published = False, media = []\<rparr>"
      by (simp add: parsePostContent_def)
  }
qed

theorem non_object_json_discards_raw_witness:
  "parsePostContent example_parse (Some ''42'') = \<lparr>body = '''', published = False, media = []\<rparr> \<and>
   parsePostContent example_parse (Some ''true'') = \<lparr>body = '''', published = False, media = []\<rparr> \<and>
   parsePostContent example_parse (Some ''null'') = \<lparr>body = ''null'', published = False, media = []\<rparr>"
  using non_object_json_discards_raw [of "''42''" example_parse 42 True "''''"]
        non_object_json_discards_raw [of "''true''" example_parse 42 True "''''"]
        non_object_json_discards_raw [of "''null''" example_parse 42 True "''''"]
  by (simp add: example_parse_def example_text_def)

lemma list_all_MediaItem: "list_all is_MediaItem xs \<longleftrightarrow> list_all media_entry_ok xs"
  by (simp add: list_all_iff is_MediaItem_iff)

lemma content_object_typed:
  "list_all is_MediaItem (media d) \<Longrightarrow> content_object d = Inr (serialized_fields d)"
  by (simp add: content_object_def serialized_fields_def without_empty_media_def
        filter_e_nonempty list_all_MediaItem)

text \<open>
  Claim C9. For every input record whose media entries are of type \<^verbatim>\<open>MediaItem\<close>, the
  encoder serializes the object of exactly the three fields \<open>body\<close> and \<open>published\<close> as
  given and \<open>media\<close>, the input sequence without the entries whose trimmed \<open>url\<close> is
  empty: a subsequence of the input, so the order is kept and every kept entry is the
  entry that was given, with its \<open>id\<close>, its \<open>kind\<close> and its \<open>url\<close> as it was.
\<close>

theorem serializeContent_three_fields:
  assumes "list_all is_MediaItem (media d)"
  shows "serializeContent S d =
           Inr (S (JObj [(''body'', JStr (body d)),
                         (''published'', JBool (published d)),
                         (''media'', JArr (filter (\<lambda>item. trim (url_text item) \<noteq> '''') (media d)))])) \<and>
         subseq (filter (\<lambda>item. trim (url_text item) \<noteq> '''') (media d)) (media d)"
  using assms
  by (simp add: serializeContent_def content_object_typed serialized_fields_def
        without_empty_media_def empty_media_def)

theorem serializeContent_three_fields_witness:
  "list_all is_MediaItem (media example_content) \<and>
   serializeContent example_stringify example_content = Inr example_text"
proof -
  have t: "list_all is_MediaItem (media example_content)"
    by (simp add: example_content_def example_item_a_def example_item_b_def is_MediaItem_def)
  show ?thesis
    using t serializeContent_three_fields [OF t, of example_stringify]
    by (simp add: example_content_def example_item_a_def example_item_b_def
          example_stringify_def trim_def is_space_def)
qed

text \<open>
  Claim C2, as stated, fails: decoding trims the \<open>url\<close> of every entry, which encoding
  had kept as it was. The record below has an entry with \<open>url\<close> \<^verbatim>\<open>" u "\<close>; its
  serialization is the example text, and decoding that gives an entry with \<open>url\<close>
  \<^verbatim>\<open>"u"\<close>, not the entry of the record.
\<close>

theorem roundtrip_counterexample:
  "list_all is_MediaItem (media example_content) \<and>
   serializeContent example_stringify example_content = Inr example_text \<and>
   example_parse example_text =
     Some (JObj [(''body'', JStr ''hi''), (''published'', JBool True),
                 (''media'', JArr [example_item_a])]) \<and>
   media (parsePostContent example_parse (Some example_text)) =
     [JObj [(''id'', JStr ''a''), (''kind'', JStr ''image''), (''url'', JStr ''u'')]] \<and>
   media (without_empty_media example_content) =
     [JObj [(''id'', JStr ''a''), (''kind'', JStr ''image''), (''url'', JStr '' u '')]] \<and>
   parsePostContent example_parse (Some example_text) \<noteq> without_empty_media example_content"
  by (simp add: example_content_def example_item_a_def example_item_b_def is_MediaItem_def
        serializeContent_def content_object_def example_stringify_def example_parse_def
        parsePostContent_def parse_attempt_def get_prop_def without_empty_media_def
        empty_media_def trim_def is_space_def example_text_def)

text \<open>
  Claim C2, amended. For every record \<open>x\<close> whose media entries are of type
  \<^verbatim>\<open>MediaItem\<close>, where \<^verbatim>\<open>JSON.parse\<close> gives back the object that \<^verbatim>\<open>JSON.stringify\<close>
  wrote: decoding the encoding of \<open>x\<close> yields the body and the published flag of \<open>x\<close>
  and the media of \<open>x\<close> without its empty entries, each remaining entry with its \<open>url\<close>
  trimmed and its other fields as they were, in the same order.
\<close>

theorem roundtrip_trimmed:
  assumes typed: "list_all is_MediaItem (media x)"
    and parse_inverts: "P (S (serialized_fields x)) = Some (serialized_fields x)"
    and nonempty: "S (serialized_fields x) \<noteq> ''''"
  shows "\<exists>s. serializeContent S x = Inr s \<and>
             parsePostContent P (Some s) =
               \<lparr>body = body x, published = published x,
                media = map url_trimmed (media (without_empty_media x))\<rparr>"
proof -
  let ?kept = "media (without_empty_media x)"
  have s: "serializeContent S x = Inr (S (serialized_fields x))"
    using typed by (simp add: serializeContent_def content_object_typed)
  have "list_all media_entry_ok ?kept"
    using typed by (simp add: without_empty_media_def list_all_iff is_MediaItem_iff)
  then have k: "filter media_entry_ok ?kept = ?kept"
    by (simp add: list_all_iff)
  have "parse_attempt P (S (serialized_fields x)) =
          Inr \<lparr>body = body x, published = published x, media = map url_trimmed ?kept\<rparr>"
    using parse_inverts k
    by (subst parse_attempt_object [where kvs = "[(''body'', JStr (body x)),
           (''published'', JBool (published x)), (''media'', JArr ?kept)]"])
       (simp_all add: serialized_fields_def)
  with nonempty have "parsePostContent P (Some (S (serialized_fields x))) =
      \<lparr>body = body x, published = published x, media = map url_trimmed ?kept\<rparr>"
    by (simp add: parsePostContent_def)
  with s show ?thesis by blast
qed

theorem roundtrip_trimmed_witness:
  "list_all is_MediaItem (media example_content) \<and>
   example_parse (example_stringify (serialized_fields example_content)) =
     Some (serialized_fields example_content) \<and>
   example_stringify (serialized_fields example_content) \<noteq> '''' \<and>
   (\<exists>s. serializeContent example_stringify example_content = Inr s \<and>
        parsePostContent example_parse (Some s) =
          \<lparr>body = ''hi'', published = True,
           media = [JObj [(''id'', JStr ''a''), (''kind'', JStr ''image''), (''url'', JStr ''u'')]]\<rparr>)"
proof -
  have t: "list_all is_MediaItem (media example_content)"
    by (simp add: example_content_def example_item_a_def example_item_b_def is_MediaItem_def)
  have f: "serialized_fields example_content =
      JObj [(''body'', JStr ''hi''), (''published'', JBool True), (''media'', JArr [example_item_a])]"
    by (simp add: serialized_fields_def without_empty_media_def empty_media_def example_content_def
          example_item_a_def example_item_b_def trim_def is_space_def)
  have p: "example_parse (example_stringify (serialized_fields example_content)) =
      Some (serialized_fields example_content)"
    by (simp add: f example_parse_def example_stringify_def)
  have n: "example_stringify (serialized_fields example_content) \<noteq> ''''"
    by (simp add: f example_stringify_def example_text_def)
  have m: "map url_trimmed (media (without_empty_media example_content)) =
      [JObj [(''id'', JStr ''a''), (''kind'', JStr ''image''), (''url'', JStr ''u'')]]"
    by (simp add: without_empty_media_def empty_media_def example_content_def url_trimmed_def
          example_item_a_def example_item_b_def trim_def is_space_def)
  show ?thesis
    using t p n roundtrip_trimmed [of example_content example_parse example_stringify]
    by (simp add: m) (simp add: example_content_def)
qed

section \<open>Properties of the create-payload validator\<close>

text \<open>
  Claim C3. The create-payload validator tries its rules in order and stops at the first
  that fails: the body must be a structured value (not null, not a primitive); \<open>title\<close>
  must be a text that is not empty after trimming; \<open>profile_id\<close> must be a text that
  passes the UUID validator; \<open>content\<close>, if there and not null, must be a text. Each
  failure is reported whatever the later fields are. On success the payload has the
  trimmed title, the \<open>profile_id\<close> as given and the content, null when it was absent.
  In particular \<^verbatim>\<open>{}\<close> is rejected for its title, a valid title with
  \<^verbatim>\<open>profile_id: "not-a-uuid"\<close> is rejected for its \<open>profile_id\<close>, and
  \<^verbatim>\<open>{title: " T ", profile_id: u}\<close> with a valid \<open>u\<close> is accepted with title
  \<^verbatim>\<open>"T"\<close> and content null.
\<close>

theorem validateCreatePostPayload_rules:
  \<open>(p = JNull \<or> p = JBool b \<or> p = JNum n \<or> p = JStr s \<longrightarrow>
      validateCreatePostPayload p =
        \<lparr>valid = False, data = None, error = Some ''Request body must be a JSON object.''\<rparr>) \<and>
   (validateCreatePostPayload (JArr xs) =
        \<lparr>valid = False, data = None,
         error = Some ''"title" is required and must be a non-empty string.''\<rparr>) \<and>
   (\<not> (\<exists>t. map_of kvs ''title'' = Some (JStr t) \<and> trim t \<noteq> '''') \<longrightarrow>
      validateCreatePostPayload (JObj kvs) =
        \<lparr>valid = False, data = None,
         error = Some ''"title" is required and must be a non-empty string.''\<rparr>) \<and>
   (map_of kvs ''title'' = Some (JStr t) \<and> trim t \<noteq> '''' \<and>
    \<not> (\<exists>u. map_of kvs ''profile_id'' = Some (JStr u) \<and> isUuid u) \<longrightarrow>
      validateCreatePostPayload (JObj kvs) =
        \<lparr>valid = False, data = None,
         error = Some ''"profile_id" is required and must be a valid UUID.''\<rparr>) \<and>
   (map_of kvs ''title'' = Some (JStr t) \<and> trim t \<noteq> '''' \<and>
    map_of kvs ''profile_id'' = Some (JStr u) \<and> isUuid u \<and>
    map_of kvs ''content'' = Some c \<and> c \<noteq> JNull \<and> (\<forall>w. c \<noteq> JStr w) \<longrightarrow>
      validateCreatePostPayload (JObj kvs) =
        \<lparr>valid = False, data = None,
         error = Some ''"content" must be a string or null when provided.''\<rparr>) \<and>
   (map_of kvs ''title'' = Some (JStr t) \<and> trim t \<noteq> '''' \<and>
    map_of kvs ''profile_id'' = Some (JStr u) \<and> isUuid u \<and>
    (map_of kvs ''content'' = None \<or> map_of kvs ''content'' = Some JNull \<or>
     map_of kvs ''content'' = Some (JStr w)) \<longrightarrow>
      validateCreatePostPayload (JObj kvs) =
        \<lparr>valid = True,
         data = Some (JObj [(''title'', JStr (trim t)),
                            (''content'', (case map_of kvs ''content'' of None \<Rightarrow> JNull | Some v \<Rightarrow> v)),
                            (''profile_id'', JStr u)]),
         error = None\<rparr>) \<and>
   (validateCreatePostPayload (JObj []) =
        \<lparr>valid = False, data = None,
         error = Some ''"title" is required and must be a non-empty string.''\<rparr>) \<and>
   (validateCreatePostPayload (JObj [(''title'', JStr ''T''), (''profile_id'', JStr ''not-a-uuid'')]) =
        \<lparr>valid = False, data = None,
         error = Some ''"profile_id" is required and must be a valid UUID.''\<rparr>) \<and>
   (isUuid u \<longrightarrow>
      validateCreatePostPayload (JObj [(''title'', JStr '' T ''), (''profile_id'', JStr u)]) =
        \<lparr>valid = True,
         data = Some (JObj [(''title'', JStr ''T''), (''content'', JNull), (''profile_id'', JStr u)]),
         error = None\<rparr>)\<close>
proof -
  have 1: "validateCreatePostPayload p = invalid ''Request body must be a JSON object.''"
    if "p = JNull \<or> p = JBool b \<or> p = JNum n \<or> p = JStr s"
    using that by (cases p) (auto simp: validateCreatePostPayload_def)
  have 2: \<open>validateCreatePostPayload (JArr xs) =
             invalid ''"title" is required and must be a non-empty string.''\<close>
    by (simp add: validateCreatePostPayload_def)
  have 3: \<open>validateCreatePostPayload (JObj kvs) =
             invalid ''"title" is required and must be a non-empty string.''\<close>
    if "\<not> (\<exists>t. map_of kvs ''title'' = Some (JStr t) \<and> trim t \<noteq> '''')" for kvs
    using that
    by (cases "map_of kvs ''title''"; cases "the (map_of kvs ''title'')")
       (simp_all add: validateCreatePostPayload_def)
  have 4: \<open>validateCreatePostPayload (JObj kvs) =
             invalid ''"profile_id" is required and must be a valid UUID.''\<close>
    if "map_of kvs ''title'' = Some (JStr t) \<and> trim t \<noteq> '''' \<and>
        \<not> (\<exists>u. map_of kvs ''profile_id'' = Some (JStr u) \<and> isUuid u)" for kvs t
    using that
    by (cases "map_of kvs ''profile_id''"; cases "the (map_of kvs ''profile_id'')")
       (simp_all add: validateCreatePostPayload_def)
  have 5: \<open>validateCreatePostPayload (JObj kvs) =
             invalid ''"content" must be a string or null when provided.''\<close>
    if "map_of kvs ''title'' = Some (JStr t) \<and> trim t \<noteq> '''' \<and>
        map_of kvs ''profile_id'' = Some (JStr u) \<and> isUuid u \<and>
        map_of kvs ''content'' = Some c \<and> c \<noteq> JNull \<and> (\<forall>w. c \<noteq> JStr w)"
    using that by (cases c) (simp_all add: validateCreatePostPayload_def)
  have 6: "validateCreatePostPayload (JObj kvs) =
             accepted (JObj [(''title'', JStr (trim t)),
                             (''content'', (case map_of kvs ''content'' of None \<Rightarrow> JNull | Some v \<Rightarrow> v)),
                             (''profile_id'', JStr u)])"
    if "map_of kvs ''title'' = Some (JStr t) \<and> trim t \<noteq> '''' \<and>
        map_of kvs ''profile_id'' = Some (JStr u) \<and> isUuid u \<and>
        (map_of kvs ''content'' = None \<or> map_of kvs ''content'' = Some JNull \<or>
         map_of kvs ''content'' = Some (JStr w))" for kvs t
    using that by (auto simp: validateCreatePostPayload_def)
  have nu: "\<not> isUuid ''not-a-uuid''"
    using isUuid_length [of "''not-a-uuid''"] by auto
  have tr: "trim '' T '' = ''T''" "trim ''T'' = ''T''"
    by (simp_all add: trim_def is_space_def)
  have 7: \<open>validateCreatePostPayload (JObj []) =
             invalid ''"title" is required and must be a non-empty string.''\<close>
    using 3 [of "[]"] by simp
  have 8: \<open>validateCreatePostPayload
              (JObj [(''title'', JStr ''T''), (''profile_id'', JStr ''not-a-uuid'')]) =
             invalid ''"profile_id" is required and must be a valid UUID.''\<close>
    using 4 [of "[(''title'', JStr ''T''), (''profile_id'', JStr ''not-a-uuid'')]" "''T''"]
    by (simp add: tr nu)
  have 9: "validateCreatePostPayload (JObj [(''title'', JStr '' T ''), (''profile_id'', JStr u)]) =
             accepted (JObj [(''title'', JStr ''T''), (''content'', JNull), (''profile_id'', JStr u)])"
    if "isUuid u"
    using that 6 [of "[(''title'', JStr '' T ''), (''profile_id'', JStr u)]" "'' T ''"]
    by (simp add: tr)
  show ?thesis
    using 1 2 3 [of kvs] 4 [of kvs t] 5 6 [of kvs t] 7 8 9
    unfolding invalid_def accepted_def
    by blast
qed

theorem validateCreatePostPayload_rules_witness:
  \<open>validateCreatePostPayload (JNum 3) =
     \<lparr>valid = False, data = None, error = Some ''Request body must be a JSON object.''\<rparr> \<and>
   validateCreatePostPayload
     (JObj [(''title'', JStr ''  ''), (''profile_id'', JNum 1), (''content'', JNum 2)]) =
     \<lparr>valid = False, data = None,
      error = Some ''"title" is required and must be a non-empty string.''\<rparr> \<and>
   validateCreatePostPayload
     (JObj [(''title'', JStr ''T''), (''profile_id'', JNum 1), (''content'', JNum 2)]) =
     \<lparr>valid = False, data = None,
      error = Some ''"profile_id" is required and must be a valid UUID.''\<rparr> \<and>
   validateCreatePostPayload
     (JObj [(''title'', JStr ''T''), (''profile_id'', JStr ''123e4567-e89b-12d3-a456-426614174000''),
            (''content'', JNum 2)]) =
     \<lparr>valid = False, data = None,
      error = Some ''"content" must be a string or null when provided.''\<rparr> \<and>
   validateCreatePostPayload
     (JObj [(''title'', JStr '' T ''), (''profile_id'', JStr ''123e4567-e89b-12d3-a456-426614174000'')]) =
     \<lparr>valid = True,
      data = Some (JObj [(''title'', JStr ''T''), (''content'', JNull),
                         (''profile_id'', JStr ''123e4567-e89b-12d3-a456-426614174000'')]),
      error = None\<rparr>\<close>
proof -
  have u: "isUuid ''123e4567-e89b-12d3-a456-426614174000''"
    using example_uuid_valid by (simp add: example_uuid_def)
  have tr: "trim ''  '' = ''''" "trim ''T'' = ''T''"
    by (simp_all add: trim_def is_space_def)
  show ?thesis
    using u
      validateCreatePostPayload_rules
        [of "JNum 3" True 3 "''''" "[]" "[]" "''''" "''''" JNull "''''"]
      validateCreatePostPayload_rules
        [of JNull True 3 "''''" "[]"
            "[(''title'', JStr ''  ''), (''profile_id'', JNum 1), (''content'', JNum 2)]"
            "''''" "''''" JNull "''''"]
      validateCreatePostPayload_rules
        [of JNull True 3 "''''" "[]"
            "[(''title'', JStr ''T''), (''profile_id'', JNum 1), (''content'', JNum 2)]"
            "''T''" "''''" JNull "''''"]
      validateCreatePostPayload_rules
        [of JNull True 3 "''''" "[]"
            "[(''title'', JStr ''T''), (''profile_id'', JStr ''123e4567-e89b-12d3-a456-426614174000''),
              (''content'', JNum 2)]"
            "''T''" "''123e4567-e89b-12d3-a456-426614174000''" "JNum 2" "''''"]
      validateCreatePostPayload_rules
        [of JNull True 3 "''''" "[]" "[]" "''''" "''123e4567-e89b-12d3-a456-426614174000''" JNull "''''"]
    by (simp add: tr)
qed

section \<open>Properties of the update-payload validator\<close>

lemma structured_checks:
  "\<not> (\<not> truthy (Some (JObj kvs)) \<or> typeof (Some (JObj kvs)) \<noteq> ''object'')"
  "\<not> (\<not> truthy (Some (JArr xs)) \<or> typeof (Some (JArr xs)) \<noteq> ''object'')"
  by simp_all

text \<open>
  Claim C4, as stated, fails in the message: a body with neither field is rejected with
  \<^verbatim>\<open>At least one field is required: "title" or "content".\<close>, not with
  \<^verbatim>\<open>At least one field is required.\<close>
\<close>

theorem update_message_counterexample:
  \<open>validateUpdatePayload (JObj []) =
     \<lparr>valid = False, data = None,
      error = Some ''At least one field is required: "title" or "content".''\<rparr> \<and>
   error (validateUpdatePayload (JObj [])) \<noteq> Some ''At least one field is required.''\<close>
  by (simp add: validateUpdatePayload_def invalid_def)

text \<open>
  Claim C4, amended. The update-payload validator rejects a structured body in which
  \<open>title\<close> and \<open>content\<close> are both absent with the message
  \<^verbatim>\<open>At least one field is required: "title" or "content".\<close> On success it returns the
  record of exactly the fields that were there: a title that is there must be a text that
  is not empty after trimming and is included trimmed; a content that is there must be a
  text or null and is included as it is; a field that is absent is not in the record, so
  an absent content and a null content give different records.
\<close>

theorem validateUpdatePayload_partial:
  \<open>(p = JNull \<or> p = JBool b \<or> p = JNum n \<or> p = JStr s \<longrightarrow>
      validateUpdatePayload p =
        \<lparr>valid = False, data = None, error = Some ''Request body must be a JSON object.''\<rparr>) \<and>
   (validateUpdatePayload (JArr xs) =
        \<lparr>valid = False, data = None,
         error = Some ''At least one field is required: "title" or "content".''\<rparr>) \<and>
   (map_of kvs ''title'' = None \<and> map_of kvs ''content'' = None \<longrightarrow>
      validateUpdatePayload (JObj kvs) =
        \<lparr>valid = False, data = None,
         error = Some ''At least one field is required: "title" or "content".''\<rparr>) \<and>
   (map_of kvs ''title'' = Some v \<and> \<not> (\<exists>t. v = JStr t \<and> trim t \<noteq> '''') \<longrightarrow>
      validateUpdatePayload (JObj kvs) =
        \<lparr>valid = False, data = None,
         error = Some ''"title" must be a non-empty string when provided.''\<rparr>) \<and>
   ((map_of kvs ''title'' = None \<or> map_of kvs ''title'' = Some (JStr t) \<and> trim t \<noteq> '''') \<and>
    map_of kvs ''content'' = Some c \<and> c \<noteq> JNull \<and> (\<forall>w. c \<noteq> JStr w) \<longrightarrow>
      validateUpdatePayload (JObj kvs) =
        \<lparr>valid = False, data = None,
         error = Some ''"content" must be a string or null when provided.''\<rparr>) \<and>
   (map_of kvs ''title'' = None \<and>
    map_of kvs ''content'' = Some c \<and> (c = JNull \<or> c = JStr w) \<longrightarrow>
      validateUpdatePayload (JObj kvs) =
        \<lparr>valid = True, data = Some (JObj [(''content'', c)]), error = None\<rparr>) \<and>
   (map_of kvs ''title'' = Some (JStr t) \<and> trim t \<noteq> '''' \<and>
    map_of kvs ''content'' = None \<longrightarrow>
      validateUpdatePayload (JObj kvs) =
        \<lparr>valid = True, data = Some (JObj [(''title'', JStr (trim t))]), error = None\<rparr>) \<and>
   (map_of kvs ''title'' = Some (JStr t) \<and> trim t \<noteq> '''' \<and>
    map_of kvs ''content'' = Some c \<and> (c = JNull \<or> c = JStr w) \<longrightarrow>
      validateUpdatePayload (JObj kvs) =
        \<lparr>valid = True, data = Some (JObj [(''title'', JStr (trim t)), (''content'', c)]),
         error = None\<rparr>)\<close>
proof -
  have 1: "validateUpdatePayload p = invalid ''Request body must be a JSON object.''"
    if "p = JNull \<or> p = JBool b \<or> p = JNum n \<or> p = JStr s"
    using that by (cases p) (auto simp: validateUpdatePayload_def)
  have 2: \<open>validateUpdatePayload (JArr xs) =
             invalid ''At least one field is required: "title" or "content".''\<close>
    by (simp add: validateUpdatePayload_def)
  have 3: \<open>validateUpdatePayload (JObj kvs) =
             invalid ''At least one field is required: "title" or "content".''\<close>
    if "map_of kvs ''title'' = None \<and> map_of kvs ''content'' = None"
    using that by (simp add: validateUpdatePayload_def)
  have 4: \<open>validateUpdatePayload (JObj kvs) =
             invalid ''"title" must be a non-empty string when provided.''\<close>
    if "map_of kvs ''title'' = Some v \<and> \<not> (\<exists>t. v = JStr t \<and> trim t \<noteq> '''')"
    using that by (cases v) (simp_all add: validateUpdatePayload_def)
  have 5: \<open>validateUpdatePayload (JObj kvs) =
             invalid ''"content" must be a string or null when provided.''\<close>
    if "(map_of kvs ''title'' = None \<or> map_of kvs ''title'' = Some (JStr t) \<and> trim t \<noteq> '''') \<and>
        map_of kvs ''content'' = Some c \<and> c \<noteq> JNull \<and> (\<forall>w. c \<noteq> JStr w)"
    using that by (cases c) (auto simp: validateUpdatePayload_def)
  have 6: "validateUpdatePayload (JObj kvs) = accepted (JObj [(''content'', c)])"
    if "map_of kvs ''title'' = None \<and> map_of kvs ''content'' = Some c \<and> (c = JNull \<or> c = JStr w)"
    using that by (auto simp: validateUpdatePayload_def)
  have 7: "validateUpdatePayload (JObj kvs) = accepted (JObj [(''title'', JStr (trim t))])"
    if "map_of kvs ''title'' = Some (JStr t) \<and> trim t \<noteq> '''' \<and> map_of kvs ''content'' = None"
    using that by (simp add: validateUpdatePayload_def)
  have 8: "validateUpdatePayload (JObj kvs) =
             accepted (JObj [(''title'', JStr (trim t)), (''content'', c)])"
    if "map_of kvs ''title'' = Some (JStr t) \<and> trim t \<noteq> '''' \<and>
        map_of kvs ''content'' = Some c \<and> (c = JNull \<or> c = JStr w)"
    using that by (auto simp: validateUpdatePayload_def)
  show ?thesis
    using 1 2 3 4 5 6 7 8
    unfolding invalid_def accepted_def
    by blast
qed

theorem validateUpdatePayload_partial_witness:
  \<open>validateUpdatePayload (JObj [(''profile_id'', JStr ''x'')]) =
     \<lparr>valid = False, data = None,
      error = Some ''At least one field is required: "title" or "content".''\<rparr> \<and>
   validateUpdatePayload (JObj [(''content'', JNull)]) =
     \<lparr>valid = True, data = Some (JObj [(''content'', JNull)]), error = None\<rparr> \<and>
   validateUpdatePayload (JObj [(''title'', JStr '' x '')]) =
     \<lparr>valid = True, data = Some (JObj [(''title'', JStr ''x'')]), error = None\<rparr> \<and>
   validateUpdatePayload (JObj [(''title'', JStr '' x ''), (''content'', JStr '' c '')]) =
     \<lparr>valid = True, data = Some (JObj [(''title'', JStr ''x''), (''content'', JStr '' c '')]),
      error = None\<rparr> \<and>
   validateUpdatePayload (JObj [(''title'', JStr ''  ''), (''content'', JNull)]) =
     \<lparr>valid = False, data = None,
      error = Some ''"title" must be a non-empty string when provided.''\<rparr>\<close>
proof -
  have tr: "trim '' x '' = ''x''" "trim ''  '' = ''''"
    by (simp_all add: trim_def is_space_def)
  show ?thesis
    using
      validateUpdatePayload_partial
        [of JNull True 0 "''''" "[]" "[(''profile_id'', JStr ''x'')]" JNull "''''" JNull "''''"]
      validateUpdatePayload_partial
        [of JNull True 0 "''''" "[]" "[(''content'', JNull)]" JNull "''''" JNull "''''"]
      validateUpdatePayload_partial
        [of JNull True 0 "''''" "[]" "[(''title'', JStr '' x '')]" JNull "'' x ''" JNull "''''"]
      validateUpdatePayload_partial
        [of JNull True 0 "''''" "[]" "[(''title'', JStr '' x ''), (''content'', JStr '' c '')]"
            JNull "'' x ''" "JStr '' c ''" "'' c ''"]
      validateUpdatePayload_partial
        [of JNull True 0 "''''" "[]" "[(''title'', JStr ''  ''), (''content'', JNull)]"
            "JStr ''  ''" "''''" JNull "''''"]
    by (simp add: tr)
qed

section \<open>Properties of the resource handlers\<close>

lemma update_payload_keys:
  assumes "data (validateUpdatePayload p) = Some d"
  shows "\<exists>upd. d = JObj upd \<and> fst ` set upd \<subseteq> {''title'', ''content''}"
proof -
  have "truthy (Some p) \<and> typeof (Some p) = ''object''"
    using assms by (auto simp: validateUpdatePayload_def invalid_def split: if_splits)
  then show ?thesis
    using assms
    by (cases "field p ''title''"; cases "the (field p ''title'')";
        cases "field p ''content''"; cases "the (field p ''content'')")
       (auto simp: validateUpdatePayload_def invalid_def accepted_def split: if_splits)
qed

lemma post_PUT_calls:
  assumes "post_PUT db req pid = (resp, tr)" and "Db c \<in> set tr"
  shows "\<exists>d. c = UpdateById pid d \<and> (\<exists>p. req = Some p \<and> data (validateUpdatePayload p) = Some d) \<and>
             tr = [ReadBody, Db c]"
  using assms
  by (auto simp: post_PUT_def Let_def split: if_splits option.splits)

text \<open>
  Claim C5. The update handler never changes \<open>profile_id\<close>: whatever the request, every
  call it makes to the backend is an update of the row of the path identifier with a
  record whose fields are among \<open>title\<close> and \<open>content\<close>; \<open>profile_id\<close> and any other
  field of the body are not in it.
\<close>

theorem put_sends_title_and_content_only:
  assumes "post_PUT db req pid = (resp, tr)" and "Db c \<in> set tr"
  shows "\<exists>upd. c = UpdateById pid (JObj upd) \<and>
               fst ` set upd \<subseteq> {''title'', ''content''} \<and>
               map_of upd ''profile_id'' = None"
proof -
  obtain d p where c: "c = UpdateById pid d" and "data (validateUpdatePayload p) = Some d"
    using post_PUT_calls [OF assms] by blast
  then obtain upd where u: "d = JObj upd" "fst ` set upd \<subseteq> {''title'', ''content''}"
    using update_payload_keys by blast
  then have "''profile_id'' \<notin> fst ` set upd"
    by auto
  then have "map_of upd ''profile_id'' = None"
    by (simp add: map_of_eq_None_iff)
  with c u show ?thesis by blast
qed

theorem put_sends_title_and_content_only_witness:
  "post_PUT example_backend_up
     (Some (JObj [(''title'', JStr '' x ''), (''content'', JNull), (''profile_id'', JStr ''zzz'')]))
     example_uuid =
     (\<lparr>status = 200, payload = DataBody (JObj [(''id'', JStr example_uuid)])\<rparr>,
      [ReadBody, Db (UpdateById example_uuid (JObj [(''title'', JStr ''x''), (''content'', JNull)]))]) \<and>
   (\<exists>upd. UpdateById example_uuid (JObj [(''title'', JStr ''x''), (''content'', JNull)]) =
            UpdateById example_uuid (JObj upd) \<and>
          fst ` set upd \<subseteq> {''title'', ''content''} \<and> map_of upd ''profile_id'' = None)"
proof -
  have u: "isUuid example_uuid"
    by (rule example_uuid_valid)
  have tr: "trim '' x '' = ''x''"
    by (simp add: trim_def is_space_def)
  have v: "validateUpdatePayload
             (JObj [(''title'', JStr '' x ''), (''content'', JNull), (''profile_id'', JStr ''zzz'')]) =
           accepted (JObj [(''title'', JStr ''x''), (''content'', JNull)])"
    by (simp add: validateUpdatePayload_def tr)
  have r: "post_PUT example_backend_up
     (Some (JObj [(''title'', JStr '' x ''), (''content'', JNull), (''profile_id'', JStr ''zzz'')]))
     example_uuid =
     (\<lparr>status = 200, payload = DataBody (JObj [(''id'', JStr example_uuid)])\<rparr>,
      [ReadBody, Db (UpdateById example_uuid (JObj [(''title'', JStr ''x''), (''content'', JNull)]))])"
    by (simp add: post_PUT_def u v accepted_def example_backend_up_def)
  show ?thesis
    using r put_sends_title_and_content_only [OF r,
        of "UpdateById example_uuid (JObj [(''title'', JStr ''x''), (''content'', JNull)])"]
    by simp
qed

text \<open>
  Claim C6. For every path identifier that the UUID validator rejects, the read-one, the
  update and the delete handler return status 400 with the message
  \<^verbatim>\<open>Invalid post id. Expected UUID.\<close> and have performed no effect: the request body was
  not read and the backend was not called, whatever the body and the backend are.
\<close>

theorem invalid_id_rejected_first:
  assumes "\<not> isUuid pid"
  shows "post_GET db pid =
           (\<lparr>status = 400, payload = ErrorBody (Some ''Invalid post id. Expected UUID.'')\<rparr>, []) \<and>
         post_PUT db req pid =
           (\<lparr>status = 400, payload = ErrorBody (Some ''Invalid post id. Expected UUID.'')\<rparr>, []) \<and>
         post_DELETE db pid =
           (\<lparr>status = 400, payload = ErrorBody (Some ''Invalid post id. Expected UUID.'')\<rparr>, [])"
  using assms by (simp add: post_GET_def post_PUT_def post_DELETE_def invalidIdResponse_def)

theorem invalid_id_rejected_first_witness:
  "\<not> isUuid ''not-a-uuid'' \<and>
   post_GET example_backend_up ''not-a-uuid'' =
     (\<lparr>status = 400, payload = ErrorBody (Some ''Invalid post id. Expected UUID.'')\<rparr>, []) \<and>
   post_PUT example_backend_up (Some (JObj [(''title'', JStr ''x'')])) ''not-a-uuid'' =
     (\<lparr>status = 400, payload = ErrorBody (Some ''Invalid post id. Expected UUID.'')\<rparr>, []) \<and>
   post_DELETE example_backend_up ''not-a-uuid'' =
     (\<lparr>status = 400, payload = ErrorBody (Some ''Invalid post id. Expected UUID.'')\<rparr>, [])"
proof -
  have n: "\<not> isUuid ''not-a-uuid''"
    using isUuid_length [of "''not-a-uuid''"] by auto
  show ?thesis
    using n invalid_id_rejected_first [OF n, of example_backend_up "Some (JObj [(''title'', JStr ''x'')])"]
    by simp
qed

lemma create_valid_data:
  "valid (validateCreatePostPayload p) \<Longrightarrow>
   \<exists>obj. data (validateCreatePostPayload p) = Some (JObj obj)"
  by (auto simp: validateCreatePostPayload_def invalid_def accepted_def
        split: if_splits option.splits json.splits)

lemma update_valid_data:
  "valid (validateUpdatePayload p) \<Longrightarrow>
   \<exists>obj. data (validateUpdatePayload p) = Some (JObj obj)"
  by (auto simp: validateUpdatePayload_def invalid_def accepted_def
        split: if_splits option.splits json.splits sum.splits)

lemma posts_GET_failure:
  assumes "posts_GET db = (resp, tr)" "Db c \<in> set tr" "db_error (db c) = Some msg"
  shows "resp = \<lparr>status = 500, payload = ErrorBody (Some msg)\<rparr> \<and>
         filter (\<lambda>e. e \<noteq> ReadBody) tr = [Db c] \<and> last tr = Db c"
  using assms by (auto simp: posts_GET_def Let_def split: if_splits)

lemma posts_POST_failure:
  assumes "posts_POST db req = (resp, tr)" "Db c \<in> set tr" "db_error (db c) = Some msg"
  shows "resp = \<lparr>status = 500, payload = ErrorBody (Some msg)\<rparr> \<and>
         filter (\<lambda>e. e \<noteq> ReadBody) tr = [Db c] \<and> last tr = Db c"
  using assms by (auto simp: posts_POST_def Let_def split: if_splits option.splits)

lemma post_GET_failure:
  assumes "post_GET db pid = (resp, tr)" "Db c \<in> set tr" "db_error (db c) = Some msg"
  shows "resp = \<lparr>status = 500, payload = ErrorBody (Some msg)\<rparr> \<and>
         filter (\<lambda>e. e \<noteq> ReadBody) tr = [Db c] \<and> last tr = Db c"
  using assms by (auto simp: post_GET_def Let_def split: if_splits)

lemma post_PUT_failure:
  assumes "post_PUT db req pid = (resp, tr)" "Db c \<in> set tr" "db_error (db c) = Some msg"
  shows "resp = \<lparr>status = 500, payload = ErrorBody (Some msg)\<rparr> \<and>
         filter (\<lambda>e. e \<noteq> ReadBody) tr = [Db c] \<and> last tr = Db c"
  using assms by (auto simp: post_PUT_def Let_def split: if_splits option.splits)

lemma post_DELETE_failure:
  assumes "post_DELETE db pid = (resp, tr)" "Db c \<in> set tr" "db_error (db c) = Some msg"
  shows "resp = \<lparr>status = 500, payload = ErrorBody (Some msg)\<rparr> \<and>
         filter (\<lambda>e. e \<noteq> ReadBody) tr = [Db c] \<and> last tr = Db c"
  using assms by (auto simp: post_DELETE_def Let_def split: if_splits)

lemma handler_calls:
  "snd (posts_GET db) = [Db SelectAll]"
  "isUuid pid \<Longrightarrow> snd (post_GET db pid) = [Db (SelectById pid)]"
  "isUuid pid \<Longrightarrow> snd (post_DELETE db pid) = [Db (DeleteById pid)]"
  by (simp_all add: posts_GET_def post_GET_def post_DELETE_def Let_def)

lemma posts_POST_calls:
  assumes "valid (validateCreatePostPayload p)"
  shows "\<exists>d. data (validateCreatePostPayload p) = Some d \<and>
             snd (posts_POST db (Some p)) = [ReadBody, Db (Insert d)]"
  using assms create_valid_data [OF assms]
  by (auto simp: posts_POST_def Let_def)

lemma post_PUT_calls_made:
  assumes "isUuid pid" "valid (validateUpdatePayload p)"
  shows "\<exists>d. data (validateUpdatePayload p) = Some d \<and>
             snd (post_PUT db (Some p) pid) = [ReadBody, Db (UpdateById pid d)]"
  using assms update_valid_data [OF assms(2)]
  by (auto simp: post_PUT_def Let_def)

text \<open>
  Claim C7. In each of the five handlers (list, create, read-one, update, delete), when
  the backend answers the handler's call with an error, the response is status 500 with
  exactly the backend's message, that call is the only call to the backend in the run and
  nothing follows it. The calls are made: always by list, on a valid payload by create, on
  a valid identifier by read-one and delete, on a valid identifier and payload by update.
\<close>

theorem backend_failure_surfaced:
  "((posts_GET db = (resp, tr) \<or> posts_POST db req = (resp, tr) \<or> post_GET db pid = (resp, tr) \<or>
     post_PUT db req pid = (resp, tr) \<or> post_DELETE db pid = (resp, tr)) \<and>
    Db c \<in> set tr \<and> db_error (db c) = Some msg \<longrightarrow>
      resp = \<lparr>status = 500, payload = ErrorBody (Some msg)\<rparr> \<and>
      filter (\<lambda>e. e \<noteq> ReadBody) tr = [Db c] \<and> last tr = Db c) \<and>
   snd (posts_GET db) = [Db SelectAll] \<and>
   (valid (validateCreatePostPayload p) \<longrightarrow>
      (\<exists>d. data (validateCreatePostPayload p) = Some d \<and>
           snd (posts_POST db (Some p)) = [ReadBody, Db (Insert d)])) \<and>
   (isUuid pid \<longrightarrow> snd (post_GET db pid) = [Db (SelectById pid)]) \<and>
   (isUuid pid \<and> valid (validateUpdatePayload q) \<longrightarrow>
      (\<exists>d. data (validateUpdatePayload q) = Some d \<and>
           snd (post_PUT db (Some q) pid) = [ReadBody, Db (UpdateById pid d)])) \<and>
   (isUuid pid \<longrightarrow> snd (post_DELETE db pid) = [Db (DeleteById pid)])"
  using posts_GET_failure [of db resp tr c msg] posts_POST_failure [of db req resp tr c msg]
    post_GET_failure [of db pid resp tr c msg] post_PUT_failure [of db req pid resp tr c msg]
    post_DELETE_failure [of db pid resp tr c msg]
    handler_calls posts_POST_calls [of p db] post_PUT_calls_made [of pid q db]
  by blast

theorem backend_failure_surfaced_witness:
  "posts_GET example_backend_down =
     (\<lparr>status = 500, payload = ErrorBody (Some ''connection refused'')\<rparr>, [Db SelectAll]) \<and>
   post_DELETE example_backend_down example_uuid =
     (\<lparr>status = 500, payload = ErrorBody (Some ''connection refused'')\<rparr>,
      [Db (DeleteById example_uuid)]) \<and>
   post_PUT example_backend_down (Some (JObj [(''content'', JNull)])) example_uuid =
     (\<lparr>status = 500, payload = ErrorBody (Some ''connection refused'')\<rparr>,
      [ReadBody, Db (UpdateById example_uuid (JObj [(''content'', JNull)]))])"
proof -
  have u: "isUuid example_uuid"
    by (rule example_uuid_valid)
  have v: "validateUpdatePayload (JObj [(''content'', JNull)]) = accepted (JObj [(''content'', JNull)])"
    by (simp add: validateUpdatePayload_def)
  have e: "db_error (example_backend_down call) = Some ''connection refused''" for call
    by (simp add: example_backend_down_def)
  have g: "posts_GET example_backend_down =
     (\<lparr>status = 500, payload = ErrorBody (Some ''connection refused'')\<rparr>, [Db SelectAll])"
    by (simp add: posts_GET_def example_backend_down_def)
  have d: "post_DELETE example_backend_down example_uuid =
     (\<lparr>status = 500, payload = ErrorBody (Some ''connection refused'')\<rparr>,
      [Db (DeleteById example_uuid)])"
    by (simp add: post_DELETE_def u example_backend_down_def)
  have p: "post_PUT example_backend_down (Some (JObj [(''content'', JNull)])) example_uuid =
     (\<lparr>status = 500, payload = ErrorBody (Some ''connection refused'')\<rparr>,
      [ReadBody, Db (UpdateById example_uuid (JObj [(''content'', JNull)]))])"
    by (simp add: post_PUT_def u v accepted_def example_backend_down_def)
  show ?thesis
    using g d p e
      backend_failure_surfaced
        [of example_backend_down
            "\<lparr>status = 500, payload = ErrorBody (Some ''connection refused'')\<rparr>"
            "[ReadBody, Db (UpdateById example_uuid (JObj [(''content'', JNull)]))]"
            "Some (JObj [(''content'', JNull)])" example_uuid
            "UpdateById example_uuid (JObj [(''content'', JNull)])" "''connection refused''"
            "JObj []" "JObj [(''content'', JNull)]"]
    by simp
qed

end
